theory Spec2Isabelle
  imports Complex_Main
begin

section \<open>Shared model of the environment\<close>

text \<open>
  The repository is a thin layer over a PostgreSQL database, a vector-store client and a
  query engine. Every call that leaves the repository's own code is one constructor of
  \<open>op\<close>, named after its call site, so that a single run issues each of them at most
  once. Whether such a call raises is decided by the \<open>faults\<close> field of the world, and
  every call that is issued is recorded in \<open>calls\<close>. The database is the map \<open>tables\<close>
  from a table's name to its rows: the existence query answers whether the name is in
  the map and the count query answers the number of rows. The logger's output is \<open>log\<close>.
\<close>

datatype op =
    Connect             \<comment> \<open>pgvector_store.py:56 psycopg2.connect\<close>
  | SetAutocommit       \<comment> \<open>pgvector_store.py:58 conn.autocommit = True\<close>
  | ExtCursor           \<comment> \<open>pgvector_store.py:63 conn.cursor()\<close>
  | CreateExtension     \<comment> \<open>pgvector_store.py:64 CREATE EXTENSION IF NOT EXISTS vector\<close>
  | MakeUrl             \<comment> \<open>pgvector_store.py:75 make_url\<close>
  | FromParams          \<comment> \<open>pgvector_store.py:76 PGVectorStore.from_params\<close>
  | CheckCursor         \<comment> \<open>pgvector_store.py:101 conn.cursor()\<close>
  | TableExistsInit     \<comment> \<open>pgvector_store.py:103 SELECT EXISTS ...\<close>
  | CreateTable         \<comment> \<open>pgvector_store.py:124 CREATE TABLE IF NOT EXISTS\<close>
  | StorageCtx          \<comment> \<open>pgvector_store.py:131 StorageContext.from_defaults\<close>
  | BuildIndex          \<comment> \<open>pgvector_store.py:157/163 VectorStoreIndex(...)\<close>
  | DeleteAll           \<comment> \<open>pgvector_store.py:182 vector_store.delete(delete_all=True)\<close>
  | TruncCursor         \<comment> \<open>pgvector_store.py:189 conn.cursor()\<close>
  | Truncate            \<comment> \<open>pgvector_store.py:190 TRUNCATE TABLE\<close>
  | CountCursor         \<comment> \<open>pgvector_store.py:204 conn.cursor()\<close>
  | TableExistsCount    \<comment> \<open>pgvector_store.py:206 SELECT EXISTS ...\<close>
  | CountRows           \<comment> \<open>pgvector_store.py:217 SELECT COUNT(*)\<close>
  | AsQueryEngine       \<comment> \<open>retriever.py:64 vector_index.as_query_engine\<close>
  | EngineQuery         \<comment> \<open>retriever.py:113 query_engine.query\<close>

datatype error =
    Raised op           \<comment> \<open>the exception an external call raised\<close>
  | ValueError          \<comment> \<open>pgvector_store.py:32\<close>

datatype level = INFO | WARNING | ERROR

text \<open>The value held by \<open>self.embed_dim\<close>: Python does not fix its type.\<close>

datatype pyobj = PyInt int | PyStr string | PyNone

text \<open>One constructor for each message the modelled functions emit.\<close>

datatype msg =
    UsingEmbedDim pyobj       \<comment> \<open>pgvector_store.py:36\<close>
  | InvalidEmbedDim pyobj     \<comment> \<open>pgvector_store.py:49\<close>
  | TryInit                   \<comment> \<open>pgvector_store.py:52\<close>
  | AuxConnOk                 \<comment> \<open>pgvector_store.py:59\<close>
  | ExtensionEnsured          \<comment> \<open>pgvector_store.py:65\<close>
  | ExtensionFailed error     \<comment> \<open>pgvector_store.py:67\<close>
  | AuxConnFailed error       \<comment> \<open>pgvector_store.py:69\<close>
  | CreatingStore             \<comment> \<open>pgvector_store.py:74\<close>
  | StoreCreated              \<comment> \<open>pgvector_store.py:93\<close>
  | StoreCreateFailed error   \<comment> \<open>pgvector_store.py:95\<close>
  | TableMissing string       \<comment> \<open>pgvector_store.py:110\<close>
  | TableCreated string       \<comment> \<open>pgvector_store.py:125\<close>
  | TableCreateFailed error   \<comment> \<open>pgvector_store.py:127\<close>
  | TableCheckFailed error    \<comment> \<open>pgvector_store.py:129\<close>
  | InitOk string pyobj       \<comment> \<open>pgvector_store.py:135\<close>
  | InitFailed error          \<comment> \<open>pgvector_store.py:137\<close>
  | IndexCreated nat          \<comment> \<open>pgvector_store.py:168\<close>
  | IndexFailed error         \<comment> \<open>pgvector_store.py:171\<close>
  | Cleared string            \<comment> \<open>pgvector_store.py:183\<close>
  | ClearFailed error         \<comment> \<open>pgvector_store.py:185\<close>
  | TruncateOk string         \<comment> \<open>pgvector_store.py:191\<close>
  | TruncateFailed error      \<comment> \<open>pgvector_store.py:193\<close>
  | TableAbsent string        \<comment> \<open>pgvector_store.py:213\<close>
  | CountSqlFailed error      \<comment> \<open>pgvector_store.py:221\<close>
  | NoDirectCount             \<comment> \<open>pgvector_store.py:228\<close>
  | UsingQueryMode string     \<comment> \<open>retriever.py:58\<close>
  | PGVectorOptions           \<comment> \<open>retriever.py:59\<close>
  | EngineCreated string      \<comment> \<open>retriever.py:73\<close>
  | EngineCreateFailed error  \<comment> \<open>retriever.py:75\<close>
  | ProcessingQuery string    \<comment> \<open>retriever.py:104\<close>
  | QueryFailed error         \<comment> \<open>retriever.py:137\<close>
  | DimNotPositive int        \<comment> \<open>config.py:51 (printed)\<close>
  | DimNotInt string          \<comment> \<open>config.py:54 (printed)\<close>

type_synonym metadata = "(string \<times> string) list"

record base_node =
  node_id :: string
  content :: string
  metadata :: metadata

record world =
  tables :: "string \<rightharpoonup> base_node list"
  extension :: bool
  log :: "(level \<times> msg) list"
  calls :: "op list"
  faults :: "op \<Rightarrow> bool"

definition called :: "op \<Rightarrow> world \<Rightarrow> world" where
  "called c w = w\<lparr>calls := calls w @ [c]\<rparr>"

definition logged :: "level \<Rightarrow> msg \<Rightarrow> world \<Rightarrow> world" where
  "logged l t w = w\<lparr>log := log w @ [(l, t)]\<rparr>"

text \<open>
  Modelled from the spec: the store client's bulk delete and the database's TRUNCATE are
  outside the sources. Section 4.1 has \<open>clear_data\<close> delete all rows of the table's
  collection by either of them, so a successful one leaves the table, if there, empty.
\<close>

definition emptied :: "string \<Rightarrow> world \<Rightarrow> world" where
  "emptied t w = w\<lparr>tables := (tables w)(t := map_option (\<lambda>rows. []) (tables w t))\<rparr>"

section \<open>The vector store manager (app/database/pgvector_store.py)\<close>

record connection =
  closed :: bool
  autocommit :: bool

record store =
  st_table :: string
  st_embed_dim :: pyobj

datatype storage_ctx = StorageContext "store option"

datatype service_context = ServiceContext string

record vindex =
  idx_nodes :: "base_node list"
  idx_storage :: "storage_ctx option"
  idx_service :: "service_context option"

record manager =
  table_name :: string
  connection_string :: string
  embed_dim :: pyobj
  vector_store :: "store option"
  storage_context :: "storage_ctx option"
  index :: "vindex option"
  conn :: "connection option"

record config =
  PGVECTOR_URL :: "string option"
  OPENAI_EMBEDDING_MODEL_DIM :: int

text \<open>\<open>PGVectorManager.__init__\<close>: an unset or empty URL is falsy and raises.\<close>

definition PGVectorManager_init :: "config \<Rightarrow> string \<Rightarrow> world \<Rightarrow> (error + manager) \<times> world" where
  "PGVectorManager_init cfg name w =
     (case PGVECTOR_URL cfg of
        None \<Rightarrow> (Inl ValueError, w)
      | Some url \<Rightarrow>
          if url = [] then (Inl ValueError, w)
          else (Inr \<lparr>table_name = name, connection_string = url,
                     embed_dim = PyInt (OPENAI_EMBEDDING_MODEL_DIM cfg),
                     vector_store = None, storage_context = None, index = None, conn = None\<rparr>,
                logged INFO (UsingEmbedDim (PyInt (OPENAI_EMBEDDING_MODEL_DIM cfg))) w))"

text \<open>\<open>self.conn and not self.conn.closed\<close>\<close>

definition aux_open :: "manager \<Rightarrow> bool" where
  "aux_open m = (case conn m of None \<Rightarrow> False | Some c \<Rightarrow> \<not> closed c)"

subsection \<open>clear_data\<close>

text \<open>Lines 189 to 191: the body of the inner \<open>try\<close>.\<close>

definition truncate_sql :: "manager \<Rightarrow> world \<Rightarrow> (error + unit) \<times> world" where
  "truncate_sql m w =
     (let w1 = called TruncCursor w in
      if faults w TruncCursor then (Inl (Raised TruncCursor), w1)
      else let w2 = called Truncate w1 in
        if faults w Truncate then (Inl (Raised Truncate), w2)
        else (Inr (), logged INFO (TruncateOk (table_name m)) (emptied (table_name m) w2)))"

definition clear_data :: "manager \<Rightarrow> world \<Rightarrow> (error + unit) \<times> world" where
  "clear_data m w =
     (case vector_store m of
        None \<Rightarrow> (Inr (), w)
      | Some s \<Rightarrow>
          let w1 = called DeleteAll w in
          if \<not> faults w DeleteAll
          then (Inr (), logged INFO (Cleared (table_name m)) (emptied (st_table s) w1))
          else
            let w2 = logged ERROR (ClearFailed (Raised DeleteAll)) w1 in
            if aux_open m then
              (case truncate_sql m w2 of
                 (Inr u, w3) \<Rightarrow> (Inr (), w3)
               | (Inl e, w3) \<Rightarrow> (Inr (), logged ERROR (TruncateFailed e) w3))
            else (Inr (), w2))"

subsection \<open>get_document_count\<close>

text \<open>Lines 204 to 219: the body of the inner \<open>try\<close>.\<close>

definition count_sql :: "manager \<Rightarrow> world \<Rightarrow> (error + nat) \<times> world" where
  "count_sql m w =
     (let w1 = called CountCursor w in
      if faults w CountCursor then (Inl (Raised CountCursor), w1)
      else let w2 = called TableExistsCount w1 in
        if faults w TableExistsCount then (Inl (Raised TableExistsCount), w2)
        else case tables w (table_name m) of
               None \<Rightarrow> (Inr 0, logged INFO (TableAbsent (table_name m)) w2)
             | Some rows \<Rightarrow>
                 let w3 = called CountRows w2 in
                 if faults w CountRows then (Inl (Raised CountRows), w3)
                 else (Inr (length rows), w3))"

text \<open>
  The handlers at lines 230 and 234 guard code that only logs and returns; nothing in
  their \<open>try\<close> bodies can raise, so they have no branch here.
\<close>

definition get_document_count :: "manager \<Rightarrow> world \<Rightarrow> (error + nat) \<times> world" where
  "get_document_count m w =
     (if vector_store m = None then (Inr 0, w)
      else if aux_open m then
        (case count_sql m w of
           (Inr n, w') \<Rightarrow> (Inr n, w')
         | (Inl e, w') \<Rightarrow> (Inr 0, logged ERROR (CountSqlFailed e) w'))
      else (Inr 0, logged WARNING NoDirectCount w))"

subsection \<open>initialize\<close>

text \<open>Lines 48 to 50: \<open>not isinstance(self.embed_dim, int) or self.embed_dim <= 0\<close>.\<close>

definition valid_dim :: "pyobj \<Rightarrow> bool" where
  "valid_dim d = (case d of PyInt n \<Rightarrow> 0 < n | PyStr s \<Rightarrow> False | PyNone \<Rightarrow> False)"

definition validate_dim :: "manager \<Rightarrow> world \<Rightarrow> manager \<times> world" where
  "validate_dim m w =
     (if \<not> valid_dim (embed_dim m)
      then (m\<lparr>embed_dim := PyInt 1536\<rparr>, logged WARNING (InvalidEmbedDim (embed_dim m)) w)
      else (m, w))"

text \<open>Lines 62 to 67: ensuring the extension, with its own handler.\<close>

definition create_extension :: "world \<Rightarrow> world" where
  "create_extension w =
     (let w1 = called ExtCursor w in
      if faults w ExtCursor then logged WARNING (ExtensionFailed (Raised ExtCursor)) w1
      else let w2 = called CreateExtension w1 in
        if faults w CreateExtension
        then logged WARNING (ExtensionFailed (Raised CreateExtension)) w2
        else logged INFO ExtensionEnsured (w2\<lparr>extension := True\<rparr>))"

text \<open>Lines 55 to 70: the auxiliary connection; any failure leaves \<open>conn\<close> unset.\<close>

definition open_aux :: "manager \<Rightarrow> world \<Rightarrow> manager \<times> world" where
  "open_aux m w =
     (let w1 = called Connect w in
      if faults w Connect
      then (m\<lparr>conn := None\<rparr>, logged WARNING (AuxConnFailed (Raised Connect)) w1)
      else let w2 = called SetAutocommit w1 in
        if faults w SetAutocommit
        then (m\<lparr>conn := None\<rparr>, logged WARNING (AuxConnFailed (Raised SetAutocommit)) w2)
        else (m\<lparr>conn := Some \<lparr>closed = False, autocommit = True\<rparr>\<rparr>,
              create_extension (logged INFO AuxConnOk w2)))"

text \<open>Lines 73 to 96: constructing the store client; the handler logs and re-raises.\<close>

definition create_store :: "manager \<Rightarrow> world \<Rightarrow> (error + unit) \<times> manager \<times> world" where
  "create_store m w =
     (let w1 = called MakeUrl (logged INFO CreatingStore w) in
      if faults w MakeUrl
      then (Inl (Raised MakeUrl), m, logged WARNING (StoreCreateFailed (Raised MakeUrl)) w1)
      else let w2 = called FromParams w1 in
        if faults w FromParams
        then (Inl (Raised FromParams), m,
              logged WARNING (StoreCreateFailed (Raised FromParams)) w2)
        else (Inr (),
              m\<lparr>vector_store := Some \<lparr>st_table = table_name m, st_embed_dim = embed_dim m\<rparr>\<rparr>,
              logged INFO StoreCreated w2))"

text \<open>Lines 99 to 129: checking for the table and creating it when absent.\<close>

definition ensure_table :: "manager \<Rightarrow> world \<Rightarrow> world" where
  "ensure_table m w =
     (if conn m = None then w
      else let w1 = called CheckCursor w in
        if faults w CheckCursor then logged ERROR (TableCheckFailed (Raised CheckCursor)) w1
        else let w2 = called TableExistsInit w1 in
          if faults w TableExistsInit
          then logged ERROR (TableCheckFailed (Raised TableExistsInit)) w2
          else if tables w (table_name m) \<noteq> None then w2
          else let w3 = called CreateTable (logged INFO (TableMissing (table_name m)) w2) in
            if faults w CreateTable
            then logged WARNING (TableCreateFailed (Raised CreateTable)) w3
            else logged INFO (TableCreated (table_name m))
                   (w3\<lparr>tables := (tables w3)(table_name m \<mapsto> [])\<rparr>))"

definition initialize :: "manager \<Rightarrow> world \<Rightarrow> (error + unit) \<times> manager \<times> world" where
  "initialize m w =
     (let (m1, w1) = validate_dim m w;
          (m2, w2) = open_aux m1 (logged INFO TryInit w1)
      in case create_store m2 w2 of
           (Inl e, m3, w3) \<Rightarrow> (Inl e, m3, logged ERROR (InitFailed e) w3)
         | (Inr u, m3, w3) \<Rightarrow>
             (let w4 = called StorageCtx (ensure_table m3 w3) in
              if faults w StorageCtx
              then (Inl (Raised StorageCtx), m3,
                    logged ERROR (InitFailed (Raised StorageCtx)) w4)
              else (Inr (),
                    m3\<lparr>storage_context := Some (StorageContext (vector_store m3))\<rparr>,
                    logged INFO (InitOk (table_name m3) (embed_dim m3)) w4)))"

subsection \<open>create_index_from_nodes and get_index\<close>

text \<open>
  Modelled from the spec: the index constructor belongs to the retrieval framework.
  Section 6 gives the store client's contract as a bulk insert of chunks, so building
  the index appends the nodes to the store's table, which is created when absent.
\<close>

definition inserted :: "store option \<Rightarrow> base_node list \<Rightarrow> world \<Rightarrow> world" where
  "inserted so ns w =
     (case so of
        None \<Rightarrow> w
      | Some s \<Rightarrow>
          w\<lparr>tables := (tables w)(st_table s \<mapsto>
               (case tables w (st_table s) of None \<Rightarrow> ns | Some rows \<Rightarrow> rows @ ns))\<rparr>)"

text \<open>Lines 154 to 172; both branches on \<open>service_context\<close> build the same index.\<close>

definition build_index ::
  "base_node list \<Rightarrow> service_context option \<Rightarrow> manager \<Rightarrow> world
     \<Rightarrow> (error + vindex) \<times> manager \<times> world" where
  "build_index ns sc m w =
     (let w1 = called BuildIndex w in
      if faults w BuildIndex
      then (Inl (Raised BuildIndex), m, logged ERROR (IndexFailed (Raised BuildIndex)) w1)
      else let idx = \<lparr>idx_nodes = ns, idx_storage = storage_context m, idx_service = sc\<rparr> in
        (Inr idx, m\<lparr>index := Some idx\<rparr>,
         logged INFO (IndexCreated (length ns)) (inserted (vector_store m) ns w1)))"

definition create_index_from_nodes ::
  "base_node list \<Rightarrow> service_context option \<Rightarrow> manager \<Rightarrow> world
     \<Rightarrow> (error + vindex) \<times> manager \<times> world" where
  "create_index_from_nodes ns sc m w =
     (if storage_context m = None
      then (case initialize m w of
              (Inl e, m1, w1) \<Rightarrow> (Inl e, m1, w1)
            | (Inr u, m1, w1) \<Rightarrow> build_index ns sc m1 w1)
      else build_index ns sc m w)"

definition get_index :: "manager \<Rightarrow> vindex option" where
  "get_index m = index m"

section \<open>Configuration (app/utils/config.py)\<close>

text \<open>
  Python's string helpers. A character of a \<open>string\<close> is a code point below 256, so a
  value of the variable is a Python \<open>str\<close> of such code points; larger code points are
  outside the type. \<open>str.lower\<close> lowers the letters A to Z and the capital letters
  from 0xC0 to 0xDE other than the sign at 0xD7. \<open>str.strip\<close> removes the white space
  of \<open>str.isspace\<close>, which includes 0x1C to 0x1F.
\<close>

definition lower_char :: "char \<Rightarrow> char" where
  "lower_char c =
     (let n = of_char c :: nat
      in if (65 \<le> n \<and> n \<le> 90) \<or> (192 \<le> n \<and> n \<le> 222 \<and> n \<noteq> 215) then char_of (n + 32)
         else c)"

definition lower :: "string \<Rightarrow> string" where
  "lower s = map lower_char s"

definition is_space :: "char \<Rightarrow> bool" where
  "is_space c =
     (c = CHR '' '' \<or> c = CHR 0x09 \<or> c = CHR 0x0A \<or> c = CHR 0x0B \<or> c = CHR 0x0C \<or>
      c = CHR 0x0D \<or> c = CHR 0x1C \<or> c = CHR 0x1D \<or> c = CHR 0x1E \<or> c = CHR 0x1F \<or>
      c = CHR 0x85 \<or> c = CHR 0xA0)"

definition strip :: "string \<Rightarrow> string" where
  "strip s = rev (dropWhile is_space (rev (dropWhile is_space s)))"

text \<open>
  \<open>int\<close> on a \<open>str\<close>, with \<open>None\<close> for the \<open>ValueError\<close> it raises. It skips
  white space at both ends, which for \<open>int\<close> is the space, 0x09 to 0x0D and the two
  white-space code points above 127, but not 0x1C to 0x1F. Then it reads an optional
  sign and a decimal literal: digits in which single underscores may separate digits.
  A literal of more than 640 digits is refused when it has more digits than the
  interpreter's limit \<open>max_str_digits\<close> (\<open>sys.get_int_max_str_digits()\<close>: 4300 unless
  configured, 0 for no limit, which is also how an interpreter without the limit behaves).
\<close>

definition int_space :: "char \<Rightarrow> bool" where
  "int_space c =
     (c = CHR '' '' \<or> c = CHR 0x09 \<or> c = CHR 0x0A \<or> c = CHR 0x0B \<or> c = CHR 0x0C \<or>
      c = CHR 0x0D \<or> c = CHR 0x85 \<or> c = CHR 0xA0)"

definition int_strip :: "string \<Rightarrow> string" where
  "int_strip s = rev (dropWhile int_space (rev (dropWhile int_space s)))"

definition digit_val :: "char \<Rightarrow> nat option" where
  "digit_val c = map_of (zip ''0123456789'' [0, 1, 2, 3, 4, 5, 6, 7, 8, 9]) c"

fun parse_digits :: "string \<Rightarrow> nat \<Rightarrow> nat option" where
  "parse_digits [] acc = Some acc"
| "parse_digits [c] acc = map_option (\<lambda>v. acc * 10 + v) (digit_val c)"
| "parse_digits (c # d # ds) acc =
     (if c = CHR ''_''
      then (case digit_val d of None \<Rightarrow> None | Some v \<Rightarrow> parse_digits ds (acc * 10 + v))
      else (case digit_val c of None \<Rightarrow> None | Some v \<Rightarrow> parse_digits (d # ds) (acc * 10 + v)))"

definition too_many_digits :: "nat \<Rightarrow> string \<Rightarrow> bool" where
  "too_many_digits max_str_digits s =
     (let digits = length (filter (\<lambda>c. digit_val c \<noteq> None) s)
      in 640 < digits \<and> 0 < max_str_digits \<and> max_str_digits < digits)"

definition py_nat :: "nat \<Rightarrow> string \<Rightarrow> nat option" where
  "py_nat max_str_digits s =
     (case s of
        [] \<Rightarrow> None
      | c # cs \<Rightarrow>
          (case digit_val c of
             None \<Rightarrow> None
           | Some v \<Rightarrow> if too_many_digits max_str_digits s then None else parse_digits cs v))"

definition py_int :: "nat \<Rightarrow> string \<Rightarrow> int option" where
  "py_int max_str_digits s =
     (case int_strip s of
        [] \<Rightarrow> None
      | c # cs \<Rightarrow>
          if c = CHR ''-'' then map_option (\<lambda>n. - int n) (py_nat max_str_digits cs)
          else if c = CHR ''+'' then map_option int (py_nat max_str_digits cs)
          else map_option int (py_nat max_str_digits (c # cs)))"

text \<open>
  Lines 43 to 55, evaluated when the class is defined: the value of the environment
  variable gives the dimension and the lines printed on the way.
\<close>

definition embedding_model_dim :: "nat \<Rightarrow> string option \<Rightarrow> int \<times> msg list" where
  "embedding_model_dim max_str_digits env =
     (case env of
        None \<Rightarrow> (1536, [])
      | Some s \<Rightarrow>
          if lower s = ''none'' \<or> strip s = [] then (1536, [])
          else (case py_int max_str_digits s of
                  Some n \<Rightarrow> if n \<le> 0 then (1536, [DimNotPositive n]) else (n, [])
                | None \<Rightarrow> (1536, [DimNotInt s])))"

definition load_config :: "nat \<Rightarrow> string option \<Rightarrow> string option \<Rightarrow> config \<times> msg list" where
  "load_config max_str_digits url env =
     (\<lparr>PGVECTOR_URL = url,
       OPENAI_EMBEDDING_MODEL_DIM = fst (embedding_model_dim max_str_digits env)\<rparr>,
      snd (embedding_model_dim max_str_digits env))"

text \<open>
  A manager built from the environment and then initialised, as the application does;
  the result keeps what was printed, the outcome, the manager as it was left (none when
  the constructor raised) and the world.
\<close>

definition configured_manager ::
  "nat \<Rightarrow> string option \<Rightarrow> string option \<Rightarrow> string \<Rightarrow> world
     \<Rightarrow> msg list \<times> (error + unit) \<times> manager option \<times> world" where
  "configured_manager max_str_digits url env name w =
     (let (cfg, printed) = load_config max_str_digits url env
      in case PGVectorManager_init cfg name w of
           (Inl e, w1) \<Rightarrow> (printed, Inl e, None, w1)
         | (Inr m, w1) \<Rightarrow>
             (let (r, m2, w2) = initialize m w1 in (printed, r, Some m2, w2)))"

text \<open>The warnings about the dimension that reached the log.\<close>

definition dim_warnings :: "world \<Rightarrow> (level \<times> msg) list" where
  "dim_warnings w =
     filter (\<lambda>e. case e of (WARNING, InvalidEmbedDim d) \<Rightarrow> True | _ \<Rightarrow> False) (log w)"

section \<open>The query engine (app/core/retriever.py)\<close>

text \<open>
  A retrieved chunk with its score. The repository never inspects the score, so its type
  is a parameter; a filter object is a parameter \<open>'f\<close> as well, and an object that is
  passed is truthy.
\<close>

record 's node_with_score =
  node :: base_node
  score :: 's

text \<open>
  The response of the underlying engine: \<open>str(response)\<close> and the attribute
  \<open>source_nodes\<close>, which \<open>getattr\<close> replaces by the empty list when it is absent.
\<close>

record 's response =
  rendered :: string
  source_nodes :: "'s node_with_score list option"

text \<open>
  What \<open>hasattr\<close> can find on the underlying engine: no retriever, a retriever without
  a filter slot, or a retriever whose slot holds a filter or \<open>None\<close>.
\<close>

datatype 'f query_engine = NoRetriever | RetrieverNoFilters | Retriever "'f option"

fun has_retriever :: "'f query_engine \<Rightarrow> bool" where
  "has_retriever NoRetriever = False"
| "has_retriever RetrieverNoFilters = True"
| "has_retriever (Retriever v) = True"

fun has_filters :: "'f query_engine \<Rightarrow> bool" where
  "has_filters (Retriever v) = True"
| "has_filters q = False"

fun get_filters :: "'f query_engine \<Rightarrow> 'f option" where
  "get_filters (Retriever v) = v"
| "get_filters q = None"

text \<open>Assigning the attribute on a retriever creates the slot when it was missing.\<close>

fun set_filters :: "'f option \<Rightarrow> 'f query_engine \<Rightarrow> 'f query_engine" where
  "set_filters v NoRetriever = NoRetriever"
| "set_filters v RetrieverNoFilters = Retriever v"
| "set_filters v (Retriever u) = Retriever v"

text \<open>Values of the dictionaries that \<open>query\<close> returns; a dictionary keeps its key order.\<close>

datatype 's pyvalue =
    PStr string
  | PScore 's
  | PMeta metadata
  | PList "'s pyvalue list"
  | PDict "(string \<times> 's pyvalue) list"

fun dict_get :: "'s pyvalue \<Rightarrow> string \<Rightarrow> 's pyvalue option" where
  "dict_get (PDict kvs) k = map_of kvs k"
| "dict_get v k = None"

record ('f, 's) rag_query_engine =
  pgvector_options :: "string \<rightharpoonup> int"
  query_engine :: "'f query_engine"
  engine_query :: "'f query_engine \<Rightarrow> string \<Rightarrow> error + 's response"

definition default_pgvector_options :: "string \<rightharpoonup> int" where
  "default_pgvector_options = [''ivfflat_probes'' \<mapsto> 10, ''hnsw_ef_search'' \<mapsto> 100]"

text \<open>
  \<open>RAGQueryEngine.__init__\<close>. The constructor of the underlying engine,
  \<open>vector_index.as_query_engine\<close>, is the parameter \<open>as_qe\<close>: from top-K, the search
  mode, the options and the cutoff it gives the engine's attributes and its \<open>query\<close>
  method, or raises.
\<close>

definition RAGQueryEngine_init ::
  "(nat \<Rightarrow> string \<Rightarrow> (string \<rightharpoonup> int) \<Rightarrow> 's
      \<Rightarrow> error + 'f query_engine \<times> ('f query_engine \<Rightarrow> string \<Rightarrow> error + 's response))
   \<Rightarrow> nat \<Rightarrow> 's \<Rightarrow> string \<Rightarrow> (string \<rightharpoonup> int) option
   \<Rightarrow> (error + ('f, 's) rag_query_engine) \<times> (level \<times> msg) list" where
  "RAGQueryEngine_init as_qe similarity_top_k similarity_cutoff mode opts =
     (let options = default_pgvector_options ++ (case opts of None \<Rightarrow> Map.empty | Some o1 \<Rightarrow> o1);
          lg = [(INFO, UsingQueryMode mode), (INFO, PGVectorOptions)]
      in case as_qe similarity_top_k mode options similarity_cutoff of
           Inl e \<Rightarrow> (Inl e, lg @ [(ERROR, EngineCreateFailed e)])
         | Inr (q, run) \<Rightarrow>
             (Inr \<lparr>pgvector_options = options, query_engine = q, engine_query = run\<rparr>,
              lg @ [(INFO, EngineCreated mode)]))"

text \<open>Lines 123 to 130: the loop that appends one citation for each source node.\<close>

definition citation :: "'s node_with_score \<Rightarrow> 's pyvalue" where
  "citation n =
     PDict [(''content'', PStr (content (node n))),
            (''score'', PScore (score n)),
            (''metadata'', PMeta (metadata (node n)))]"

fun format_citations :: "'s node_with_score list \<Rightarrow> 's pyvalue list \<Rightarrow> 's pyvalue list" where
  "format_citations [] formatted_citations = formatted_citations"
| "format_citations (n # ns) formatted_citations =
     format_citations ns (formatted_citations @ [citation n])"

text \<open>
  \<open>RAGQueryEngine.query\<close>. The result is the outcome, the engine as the call leaves it
  and the lines logged. \<open>original_filters\<close> is \<open>None\<close> both when nothing was saved and
  when the saved filter was \<open>None\<close>, as in the source.
\<close>

definition query ::
  "('f, 's) rag_query_engine \<Rightarrow> string \<Rightarrow> 'f option
     \<Rightarrow> (error + 's pyvalue) \<times> ('f, 's) rag_query_engine \<times> (level \<times> msg) list" where
  "query e query_str filters =
     (let lg = [(INFO, ProcessingQuery query_str)];
          substitute = (filters \<noteq> None \<and> has_retriever (query_engine e)
                          \<and> has_filters (query_engine e));
          original_filters = (if substitute then get_filters (query_engine e) else None);
          e1 = (if substitute then e\<lparr>query_engine := set_filters filters (query_engine e)\<rparr>
                else e)
      in case engine_query e1 (query_engine e1) query_str of
           Inl err \<Rightarrow> (Inl err, e1, lg @ [(ERROR, QueryFailed err)])
         | Inr resp \<Rightarrow>
             let e2 = (if filters \<noteq> None \<and> original_filters \<noteq> None
                            \<and> has_retriever (query_engine e1)
                       then e1\<lparr>query_engine := set_filters original_filters (query_engine e1)\<rparr>
                       else e1);
                 nodes = (case source_nodes resp of None \<Rightarrow> [] | Some ns \<Rightarrow> ns)
             in (Inr (PDict [(''response'', PStr (rendered resp)),
                             (''citations'', PList (format_citations nodes []))]),
                 e2, lg))"

text \<open>
  Modelled from the spec: the engine that \<open>vector_index.as_query_engine\<close> builds belongs
  to the retrieval framework and is not among the sources. Section 4.2, step 2 of the
  specification describes its \<open>query\<close>: retrieve up to top-K chunks matching the text
  under the active filter, discard any chunk whose score is below the cutoff, then
  generate an answer from the surviving chunks. \<open>rank\<close> lists the matching chunks in
  ranked order and \<open>generate\<close> is the language model; either may raise. A score is the
  exact value of a finite float.
\<close>

definition spec_engine_query ::
  "nat \<Rightarrow> rat
   \<Rightarrow> ('f option \<Rightarrow> string \<Rightarrow> error + rat node_with_score list)
   \<Rightarrow> (string \<Rightarrow> rat node_with_score list \<Rightarrow> error + string)
   \<Rightarrow> 'f query_engine \<Rightarrow> string \<Rightarrow> error + rat response" where
  "spec_engine_query top_k cutoff rank generate q text =
     (case rank (get_filters q) text of
        Inl e \<Rightarrow> Inl e
      | Inr ranked \<Rightarrow>
          (let surviving = filter (\<lambda>n. \<not> score n < cutoff) (take top_k ranked)
           in case generate text surviving of
                Inl e \<Rightarrow> Inl e
              | Inr answer \<Rightarrow> Inr \<lparr>rendered = answer, source_nodes = Some surviving\<rparr>))"

text \<open>
  Modelled from the spec: the constructor \<open>as_query_engine\<close> of the framework, which
  binds top-K and the cutoff into the engine above; a new engine's filter slot is empty.
\<close>

definition spec_as_query_engine ::
  "('f option \<Rightarrow> string \<Rightarrow> error + rat node_with_score list)
   \<Rightarrow> (string \<Rightarrow> rat node_with_score list \<Rightarrow> error + string)
   \<Rightarrow> nat \<Rightarrow> string \<Rightarrow> (string \<rightharpoonup> int) \<Rightarrow> rat
   \<Rightarrow> error + 'f query_engine \<times> ('f query_engine \<Rightarrow> string \<Rightarrow> error + rat response)" where
  "spec_as_query_engine rank generate top_k mode options cutoff =
     Inr (Retriever None, spec_engine_query top_k cutoff rank generate)"

text \<open>The citations of a result dictionary and the score of one citation.\<close>

definition citations_of :: "'s pyvalue \<Rightarrow> 's pyvalue list" where
  "citations_of d = (case dict_get d ''citations'' of Some (PList cs) \<Rightarrow> cs | _ \<Rightarrow> [])"

definition score_of :: "'s pyvalue \<Rightarrow> 's option" where
  "score_of c = (case dict_get c ''score'' of Some (PScore x) \<Rightarrow> Some x | _ \<Rightarrow> None)"

section \<open>Observations used by the properties\<close>

text \<open>The external calls issued between two worlds of one run.\<close>

definition issued_by :: "world \<Rightarrow> world \<Rightarrow> op list" where
  "issued_by w w' = drop (length (calls w)) (calls w')"

text \<open>The lines logged between two worlds of one run.\<close>

definition logged_by :: "world \<Rightarrow> world \<Rightarrow> (level \<times> msg) list" where
  "logged_by w w' = drop (length (log w)) (log w')"

text \<open>
  An initialised manager: its store client exists and is bound to the manager's table,
  which is how \<open>initialize\<close> leaves it.
\<close>

definition initialized :: "manager \<Rightarrow> bool" where
  "initialized m = (case vector_store m of None \<Rightarrow> False | Some s \<Rightarrow> st_table s = table_name m)"

text \<open>
  The three kinds of configured dimension the validation repairs. A value is missing
  when the variable is unset, blank, or the text \<open>none\<close> in any case; it is non-numeric
  when it is there and \<open>int\<close> rejects it; it is non-positive when \<open>int\<close> reads a
  number that is at most 0.
\<close>

definition dim_missing :: "string option \<Rightarrow> bool" where
  "dim_missing env =
     (case env of None \<Rightarrow> True | Some s \<Rightarrow> lower s = ''none'' \<or> strip s = [])"

definition dim_non_numeric :: "nat \<Rightarrow> string option \<Rightarrow> bool" where
  "dim_non_numeric max_str_digits env =
     (case env of None \<Rightarrow> False
      | Some s \<Rightarrow> \<not> dim_missing env \<and> py_int max_str_digits s = None)"

definition dim_non_positive :: "nat \<Rightarrow> string option \<Rightarrow> bool" where
  "dim_non_positive max_str_digits env =
     (case env of None \<Rightarrow> False
      | Some s \<Rightarrow> \<not> dim_missing env
          \<and> (case py_int max_str_digits s of None \<Rightarrow> False | Some n \<Rightarrow> n \<le> 0))"

text \<open>The warnings, of any kind, that reached the log.\<close>

definition warnings :: "world \<Rightarrow> (level \<times> msg) list" where
  "warnings w = filter (\<lambda>e. fst e = WARNING) (log w)"

section \<open>Concrete states\<close>

definition chunk1 :: base_node where
  "chunk1 = \<lparr>node_id = ''n1'', content = ''alpha'', metadata = [(''file_name'', ''a.pdf'')]\<rparr>"

definition chunk2 :: base_node where
  "chunk2 = \<lparr>node_id = ''n2'', content = ''beta'', metadata = [(''file_name'', ''b.pdf'')]\<rparr>"

text \<open>A manager as \<open>__init__\<close> leaves it, and one as a successful \<open>initialize\<close> leaves it.\<close>

definition fresh_manager :: manager where
  "fresh_manager =
     \<lparr>table_name = ''pdf_documents'', connection_string = ''postgresql://u:p@db:5432/kb'',
      embed_dim = PyInt 1536, vector_store = None, storage_context = None, index = None,
      conn = None\<rparr>"

definition ready_manager :: manager where
  "ready_manager =
     fresh_manager
       \<lparr>vector_store := Some \<lparr>st_table = ''pdf_documents'', st_embed_dim = PyInt 1536\<rparr>,
        storage_context :=
          Some (StorageContext (Some \<lparr>st_table = ''pdf_documents'', st_embed_dim = PyInt 1536\<rparr>)),
        conn := Some \<lparr>closed = False, autocommit = True\<rparr>\<rparr>"

text \<open>A database without the table, and one whose table holds two chunks.\<close>

definition blank_world :: "(op \<Rightarrow> bool) \<Rightarrow> world" where
  "blank_world f = \<lparr>tables = Map.empty, extension = False, log = [], calls = [], faults = f\<rparr>"

definition stored_world :: "(op \<Rightarrow> bool) \<Rightarrow> world" where
  "stored_world f =
     \<lparr>tables = [''pdf_documents'' \<mapsto> [chunk1, chunk2]], extension = True, log = [], calls = [],
      faults = f\<rparr>"

text \<open>
  Three retrieved chunks scored 0.9, 0.75 and 0.5, an index that ranks them in that order
  for every query, and a language model that always gives the same answer.
\<close>

definition scored :: "rat node_with_score list" where
  "scored =
     [\<lparr>node = chunk1, score = 9 / 10\<rparr>, \<lparr>node = chunk2, score = 3 / 4\<rparr>,
      \<lparr>node = \<lparr>node_id = ''n3'', content = ''gamma'', metadata = []\<rparr>, score = 1 / 2\<rparr>]"

definition rank3 :: "string option \<Rightarrow> string \<Rightarrow> error + rat node_with_score list" where
  "rank3 f t = Inr scored"

definition answer3 :: "string \<Rightarrow> rat node_with_score list \<Rightarrow> error + string" where
  "answer3 t ns = Inr ''an answer''"

text \<open>
  An engine whose filter slot holds the default \<open>d\<close> and whose underlying query returns
  the outcome \<open>r\<close> whatever it is asked.
\<close>

definition fixed_engine ::
  "string option \<Rightarrow> error + rat response \<Rightarrow> (string, rat) rag_query_engine" where
  "fixed_engine d r =
     \<lparr>pgvector_options = default_pgvector_options, query_engine = Retriever d,
      engine_query = (\<lambda>q t. r)\<rparr>"

section \<open>Frame and trace lemmas\<close>

lemma called_simps [simp]:
  "calls (called c w) = calls w @ [c]" "tables (called c w) = tables w"
  "log (called c w) = log w" "faults (called c w) = faults w"
  "extension (called c w) = extension w"
  by (simp_all add: called_def)

lemma logged_simps [simp]:
  "calls (logged l t w) = calls w" "tables (logged l t w) = tables w"
  "log (logged l t w) = log w @ [(l, t)]" "faults (logged l t w) = faults w"
  "extension (logged l t w) = extension w"
  by (simp_all add: logged_def)

lemma emptied_simps [simp]:
  "calls (emptied t w) = calls w" "log (emptied t w) = log w"
  "faults (emptied t w) = faults w" "extension (emptied t w) = extension w"
  "tables (emptied t w) = (tables w)(t := map_option (\<lambda>rows. []) (tables w t))"
  by (simp_all add: emptied_def)

lemma create_extension_frame [simp]:
  "faults (create_extension w) = faults w" "tables (create_extension w) = tables w"
  by (simp_all add: create_extension_def Let_def)

lemma create_extension_trace:
  "calls (create_extension w) =
     calls w @ ExtCursor # (if faults w ExtCursor then [] else [CreateExtension])"
  "log (create_extension w) =
     log w @ [if faults w ExtCursor then (WARNING, ExtensionFailed (Raised ExtCursor))
              else if faults w CreateExtension
              then (WARNING, ExtensionFailed (Raised CreateExtension))
              else (INFO, ExtensionEnsured)]"
  by (simp_all add: create_extension_def Let_def)

lemma validate_dim_frame [simp]:
  "faults (snd (validate_dim m w)) = faults w"
  "tables (snd (validate_dim m w)) = tables w"
  "calls (snd (validate_dim m w)) = calls w"
  "index (fst (validate_dim m w)) = index m"
  "table_name (fst (validate_dim m w)) = table_name m"
  "embed_dim (fst (validate_dim m w)) =
     (if valid_dim (embed_dim m) then embed_dim m else PyInt 1536)"
  by (simp_all add: validate_dim_def)

lemma validate_dim_log:
  "log (snd (validate_dim m w)) =
     log w @ (if valid_dim (embed_dim m) then [] else [(WARNING, InvalidEmbedDim (embed_dim m))])"
  by (simp add: validate_dim_def)

lemma open_aux_frame [simp]:
  "faults (snd (open_aux m w)) = faults w"
  "tables (snd (open_aux m w)) = tables w"
  "index (fst (open_aux m w)) = index m"
  "table_name (fst (open_aux m w)) = table_name m"
  "embed_dim (fst (open_aux m w)) = embed_dim m"
  by (simp_all add: open_aux_def Let_def)

lemma open_aux_trace:
  "calls (snd (open_aux m w)) =
     calls w @ Connect # (if faults w Connect then []
       else SetAutocommit # (if faults w SetAutocommit then []
       else ExtCursor # (if faults w ExtCursor then [] else [CreateExtension])))"
  "log (snd (open_aux m w)) =
     log w @ (if faults w Connect then [(WARNING, AuxConnFailed (Raised Connect))]
       else if faults w SetAutocommit then [(WARNING, AuxConnFailed (Raised SetAutocommit))]
       else [(INFO, AuxConnOk),
             if faults w ExtCursor then (WARNING, ExtensionFailed (Raised ExtCursor))
             else if faults w CreateExtension
             then (WARNING, ExtensionFailed (Raised CreateExtension))
             else (INFO, ExtensionEnsured)])"
  "conn (fst (open_aux m w)) =
     (if faults w Connect \<or> faults w SetAutocommit then None
      else Some \<lparr>closed = False, autocommit = True\<rparr>)"
  by (simp_all add: open_aux_def Let_def create_extension_trace)

lemma create_store_outcome:
  "fst (create_store m w) =
     (if faults w MakeUrl then Inl (Raised MakeUrl)
      else if faults w FromParams then Inl (Raised FromParams) else Inr ())"
  by (simp add: create_store_def Let_def)

lemma create_store_frame [simp]:
  "faults (snd (snd (create_store m w))) = faults w"
  "tables (snd (snd (create_store m w))) = tables w"
  "index (fst (snd (create_store m w))) = index m"
  "table_name (fst (snd (create_store m w))) = table_name m"
  "embed_dim (fst (snd (create_store m w))) = embed_dim m"
  "conn (fst (snd (create_store m w))) = conn m"
  by (simp_all add: create_store_def Let_def)

lemma create_store_success:
  "fst (create_store m w) = Inr u \<Longrightarrow>
     vector_store (fst (snd (create_store m w))) =
       Some \<lparr>st_table = table_name m, st_embed_dim = embed_dim m\<rparr>"
  by (simp add: create_store_def Let_def split: if_splits)

lemma create_store_trace:
  "calls (snd (snd (create_store m w))) =
     calls w @ MakeUrl # (if faults w MakeUrl then [] else [FromParams])"
  "log (snd (snd (create_store m w))) =
     log w @ [(INFO, CreatingStore),
              if faults w MakeUrl then (WARNING, StoreCreateFailed (Raised MakeUrl))
              else if faults w FromParams then (WARNING, StoreCreateFailed (Raised FromParams))
              else (INFO, StoreCreated)]"
  by (simp_all add: create_store_def Let_def)

lemma ensure_table_frame [simp]: "faults (ensure_table m w) = faults w"
  by (simp add: ensure_table_def Let_def)

lemma ensure_table_trace:
  "calls (ensure_table m w) =
     calls w @ (if conn m = None then []
       else CheckCursor # (if faults w CheckCursor then []
       else TableExistsInit #
         (if faults w TableExistsInit \<or> tables w (table_name m) \<noteq> None then []
          else [CreateTable])))"
  "log (ensure_table m w) =
     log w @ (if conn m = None then []
       else if faults w CheckCursor then [(ERROR, TableCheckFailed (Raised CheckCursor))]
       else if faults w TableExistsInit
       then [(ERROR, TableCheckFailed (Raised TableExistsInit))]
       else if tables w (table_name m) \<noteq> None then []
       else [(INFO, TableMissing (table_name m)),
             if faults w CreateTable then (WARNING, TableCreateFailed (Raised CreateTable))
             else (INFO, TableCreated (table_name m))])"
  by (simp_all add: ensure_table_def Let_def)

text \<open>\<open>initialize\<close> with its tuples taken apart by projections.\<close>

lemma initialize_unfold:
  "initialize m w =
     (let m1 = fst (validate_dim m w); w1 = snd (validate_dim m w);
          p = open_aux m1 (logged INFO TryInit w1); m2 = fst p; w2 = snd p;
          q = create_store m2 w2; m3 = fst (snd q); w3 = snd (snd q)
      in case fst q of
           Inl e \<Rightarrow> (Inl e, m3, logged ERROR (InitFailed e) w3)
         | Inr u \<Rightarrow>
             (let w4 = called StorageCtx (ensure_table m3 w3) in
              if faults w StorageCtx
              then (Inl (Raised StorageCtx), m3,
                    logged ERROR (InitFailed (Raised StorageCtx)) w4)
              else (Inr (),
                    m3\<lparr>storage_context := Some (StorageContext (vector_store m3))\<rparr>,
                    logged INFO (InitOk (table_name m3) (embed_dim m3)) w4)))"
  by (simp add: initialize_def Let_def split: prod.splits sum.splits)

text \<open>Whether \<open>initialize\<close> raises depends on three of its external calls only.\<close>

lemma initialize_outcome:
  "fst (initialize m w) =
     (if faults w MakeUrl then Inl (Raised MakeUrl)
      else if faults w FromParams then Inl (Raised FromParams)
      else if faults w StorageCtx then Inl (Raised StorageCtx)
      else Inr ())"
  by (simp add: initialize_unfold Let_def create_store_outcome)

lemma initialize_frame [simp]:
  "index (fst (snd (initialize m w))) = index m"
  "table_name (fst (snd (initialize m w))) = table_name m"
  "embed_dim (fst (snd (initialize m w))) =
     (if valid_dim (embed_dim m) then embed_dim m else PyInt 1536)"
  "faults (snd (snd (initialize m w))) = faults w"
  by (simp_all add: initialize_unfold Let_def split: sum.splits)

lemma initialize_success:
  assumes "fst (initialize m w) = Inr u"
  shows "\<exists>s. vector_store (fst (snd (initialize m w))) = Some s \<and> st_table s = table_name m
            \<and> storage_context (fst (snd (initialize m w))) = Some (StorageContext (Some s))"
  using assms
  by (auto simp add: initialize_unfold Let_def create_store_success split: sum.splits if_splits)

text \<open>A successful \<open>initialize\<close> establishes \<open>initialized\<close>.\<close>

lemma initialize_initialized:
  "fst (initialize m w) = Inr u \<Longrightarrow> initialized (fst (snd (initialize m w)))"
  using initialize_success [of m w u] by (auto simp: initialized_def)

lemma initialize_calls:
  "issued_by w (snd (snd (initialize m w))) =
     Connect # (if faults w Connect then []
       else SetAutocommit # (if faults w SetAutocommit then []
       else ExtCursor # (if faults w ExtCursor then [] else [CreateExtension])))
     @ MakeUrl # (if faults w MakeUrl then []
       else FromParams # (if faults w FromParams then []
       else (if faults w Connect \<or> faults w SetAutocommit then []
             else CheckCursor # (if faults w CheckCursor then []
             else TableExistsInit #
               (if faults w TableExistsInit \<or> tables w (table_name m) \<noteq> None then []
                else [CreateTable])))
            @ [StorageCtx]))"
  by (simp add: issued_by_def initialize_unfold Let_def create_store_outcome create_store_trace
        open_aux_trace ensure_table_trace)

lemma initialize_log:
  "logged_by w (snd (snd (initialize m w))) =
     (if valid_dim (embed_dim m) then [] else [(WARNING, InvalidEmbedDim (embed_dim m))])
     @ (INFO, TryInit)
     # (if faults w Connect then [(WARNING, AuxConnFailed (Raised Connect))]
        else if faults w SetAutocommit then [(WARNING, AuxConnFailed (Raised SetAutocommit))]
        else [(INFO, AuxConnOk),
              if faults w ExtCursor then (WARNING, ExtensionFailed (Raised ExtCursor))
              else if faults w CreateExtension
              then (WARNING, ExtensionFailed (Raised CreateExtension))
              else (INFO, ExtensionEnsured)])
     @ (INFO, CreatingStore)
     # (if faults w MakeUrl
        then [(WARNING, StoreCreateFailed (Raised MakeUrl)), (ERROR, InitFailed (Raised MakeUrl))]
        else if faults w FromParams
        then [(WARNING, StoreCreateFailed (Raised FromParams)),
              (ERROR, InitFailed (Raised FromParams))]
        else (INFO, StoreCreated)
           # (if faults w Connect \<or> faults w SetAutocommit then []
              else if faults w CheckCursor then [(ERROR, TableCheckFailed (Raised CheckCursor))]
              else if faults w TableExistsInit
              then [(ERROR, TableCheckFailed (Raised TableExistsInit))]
              else if tables w (table_name m) \<noteq> None then []
              else [(INFO, TableMissing (table_name m)),
                    if faults w CreateTable
                    then (WARNING, TableCreateFailed (Raised CreateTable))
                    else (INFO, TableCreated (table_name m))])
           @ [if faults w StorageCtx then (ERROR, InitFailed (Raised StorageCtx))
              else (INFO, InitOk (table_name m)
                      (if valid_dim (embed_dim m) then embed_dim m else PyInt 1536))])"
  by (simp add: logged_by_def initialize_unfold Let_def create_store_outcome create_store_trace
        open_aux_trace ensure_table_trace validate_dim_log)

lemma initialize_log_prefix:
  "log (snd (snd (initialize m w))) = log w @ logged_by w (snd (snd (initialize m w)))"
  by (simp add: logged_by_def initialize_unfold Let_def create_store_outcome create_store_trace
        open_aux_trace ensure_table_trace validate_dim_log)

text \<open>On a valid dimension \<open>initialize\<close> logs no warning about the dimension.\<close>

lemma initialize_valid_no_dim_warning:
  "valid_dim (embed_dim m) \<Longrightarrow>
     dim_warnings (snd (snd (initialize m w))) = dim_warnings w"
  unfolding dim_warnings_def initialize_log_prefix [of m w] initialize_log
  by simp

lemma create_index_unfold:
  "create_index_from_nodes ns sc m w =
     (if storage_context m = None
      then (case fst (initialize m w) of
              Inl e \<Rightarrow> (Inl e, fst (snd (initialize m w)), snd (snd (initialize m w)))
            | Inr u \<Rightarrow>
                build_index ns sc (fst (snd (initialize m w))) (snd (snd (initialize m w))))
      else build_index ns sc m w)"
  by (simp add: create_index_from_nodes_def split: prod.splits sum.splits)

lemma build_index_result:
  "build_index ns sc m w =
     (if faults w BuildIndex
      then (Inl (Raised BuildIndex), m,
            logged ERROR (IndexFailed (Raised BuildIndex)) (called BuildIndex w))
      else (Inr \<lparr>idx_nodes = ns, idx_storage = storage_context m, idx_service = sc\<rparr>,
            m\<lparr>index :=
                Some \<lparr>idx_nodes = ns, idx_storage = storage_context m, idx_service = sc\<rparr>\<rparr>,
            logged INFO (IndexCreated (length ns))
              (inserted (vector_store m) ns (called BuildIndex w))))"
  by (simp add: build_index_def Let_def)

lemma inserted_frame [simp]:
  "calls (inserted so ns w) = calls w" "log (inserted so ns w) = log w"
  "faults (inserted so ns w) = faults w"
  by (simp_all add: inserted_def split: option.splits)

lemma embedding_model_dim_positive: "0 < fst (embedding_model_dim k env)"
  by (simp add: embedding_model_dim_def split: option.splits)

text \<open>The check in \<open>initialize\<close> repairs a dimension that is not a positive integer.\<close>

lemma initialize_repairs_dim:
  "\<not> valid_dim (embed_dim m) \<Longrightarrow>
     embed_dim (fst (snd (initialize m w))) = PyInt 1536
     \<and> (WARNING, InvalidEmbedDim (embed_dim m)) \<in> set (logged_by w (snd (snd (initialize m w))))"
  by (simp add: initialize_log)

lemma configured_manager_unfold:
  "configured_manager k url env name w =
     (case fst (PGVectorManager_init (fst (load_config k url env)) name w) of
        Inl e \<Rightarrow> (snd (load_config k url env), Inl e, None,
                  snd (PGVectorManager_init (fst (load_config k url env)) name w))
      | Inr m \<Rightarrow>
          (snd (load_config k url env),
           fst (initialize m (snd (PGVectorManager_init (fst (load_config k url env)) name w))),
           Some (fst (snd (initialize m
                   (snd (PGVectorManager_init (fst (load_config k url env)) name w))))),
           snd (snd (initialize m
                   (snd (PGVectorManager_init (fst (load_config k url env)) name w))))))"
  by (simp add: configured_manager_def Let_def split: prod.splits sum.splits)

text \<open>The readings of \<open>int\<close>, \<open>str.lower\<close> and \<open>str.strip\<close> used below.\<close>

lemma py_int_abc: "py_int k ''abc'' = None"
  by (simp add: py_int_def int_strip_def int_space_def py_nat_def digit_val_def)

lemma py_int_minus5: "py_int k ''-5'' = Some (- 5)"
  by (simp add: py_int_def int_strip_def int_space_def py_nat_def digit_val_def
        too_many_digits_def)

lemma py_int_separator_7: "py_int k [CHR 0x1F, CHR ''7''] = None"
  by (simp add: py_int_def int_strip_def int_space_def py_nat_def digit_val_def)

lemma strip_separator_7: "strip [CHR 0x1F, CHR ''7''] = ''7''"
  by (simp add: strip_def is_space_def)

lemma lower_None: "lower ''None'' = ''none''"
  by code_simp

lemma lower_abc: "lower ''abc'' \<noteq> ''none''"
  by code_simp

lemma lower_short: "lower ''-5'' \<noteq> ''none''" "lower [CHR 0x1F, CHR ''7''] \<noteq> ''none''"
  by (simp_all add: lower_def)

lemma strip_plain: "strip ''abc'' = ''abc''" "strip ''-5'' = ''-5''"
  by (simp_all add: strip_def is_space_def)

lemma format_citations_map: "format_citations ns acc = acc @ map citation ns"
  by (induction ns arbitrary: acc) simp_all

text \<open>What \<open>query\<close> leaves in the filter slot.\<close>

lemma query_filter_slot:
  "query_engine (fst (snd (query e q filters))) =
     (case (filters, query_engine e) of
        (Some f, Retriever cur) \<Rightarrow>
          (case engine_query e (Retriever (Some f)) q of
             Inl err \<Rightarrow> Retriever (Some f)
           | Inr resp \<Rightarrow>
               (case cur of None \<Rightarrow> Retriever (Some f) | Some g \<Rightarrow> Retriever (Some g)))
      | _ \<Rightarrow> query_engine e)"
  by (cases filters; cases "query_engine e")
     (auto simp: query_def Let_def split: sum.splits option.splits)

text \<open>A successful \<open>query\<close> returns the response of the underlying engine, reformatted.\<close>

lemma query_success:
  assumes "fst (query e q filters) = Inr d"
  shows "\<exists>resp.
      engine_query e
        (if filters \<noteq> None \<and> has_retriever (query_engine e) \<and> has_filters (query_engine e)
         then set_filters filters (query_engine e) else query_engine e) q = Inr resp
    \<and> d = PDict [(''response'', PStr (rendered resp)),
                  (''citations'',
                   PList (map citation (case source_nodes resp of None \<Rightarrow> [] | Some xs \<Rightarrow> xs)))]"
  using assms
  by (auto simp: query_def Let_def format_citations_map split: sum.splits if_splits)

section \<open>Properties of the vector store manager\<close>

text \<open>
  C10. A manager on which \<open>initialize\<close> was never called has no store handle. On it
  \<open>clear_data\<close> returns normally and \<open>get_document_count\<close> returns 0, and both leave the
  world as it was: no call is issued, nothing is deleted, nothing is logged, whatever the
  tables hold.
\<close>

theorem uninitialized_noop:
  assumes "vector_store m = None"
  shows "clear_data m w = (Inr (), w) \<and> get_document_count m w = (Inr 0, w)"
  using assms by (simp add: clear_data_def get_document_count_def)

theorem uninitialized_noop_witness:
  "vector_store fresh_manager = None
   \<and> tables (stored_world (\<lambda>c. False)) (table_name fresh_manager) = Some [chunk1, chunk2]
   \<and> clear_data fresh_manager (stored_world (\<lambda>c. False)) = (Inr (), stored_world (\<lambda>c. False))
   \<and> get_document_count fresh_manager (stored_world (\<lambda>c. False))
       = (Inr 0, stored_world (\<lambda>c. False))"
  using uninitialized_noop [of fresh_manager "stored_world (\<lambda>c. False)"]
  by (simp add: fresh_manager_def stored_world_def)

text \<open>
  C3. \<open>get_document_count\<close> never raises: its outcome is always a number. The number is 0
  when the table does not exist, the length of the table when the table exists and the
  count query was issued and did not fail, and 0 when any query it issued failed.
\<close>

theorem get_document_count_total:
  "(\<exists>n. fst (get_document_count m w) = Inr n)
   \<and> (tables w (table_name m) = None \<longrightarrow> fst (get_document_count m w) = Inr 0)
   \<and> (\<forall>rows. tables w (table_name m) = Some rows
          \<and> CountRows \<in> set (issued_by w (snd (get_document_count m w)))
          \<and> \<not> faults w CountRows
        \<longrightarrow> fst (get_document_count m w) = Inr (length rows))
   \<and> (\<forall>c. c \<in> set (issued_by w (snd (get_document_count m w))) \<and> faults w c
        \<longrightarrow> fst (get_document_count m w) = Inr 0)"
  by (auto simp: get_document_count_def count_sql_def issued_by_def Let_def split: option.splits)

theorem get_document_count_total_witness:
  "tables (stored_world (\<lambda>c. False)) (table_name ready_manager) = Some [chunk1, chunk2]
   \<and> CountRows \<in> set (issued_by (stored_world (\<lambda>c. False))
                        (snd (get_document_count ready_manager (stored_world (\<lambda>c. False)))))
   \<and> \<not> faults (stored_world (\<lambda>c. False)) CountRows
   \<and> fst (get_document_count ready_manager (stored_world (\<lambda>c. False))) = Inr 2
   \<and> fst (get_document_count ready_manager (blank_world (\<lambda>c. False))) = Inr 0
   \<and> faults (stored_world (\<lambda>c. c = CountRows)) CountRows
   \<and> fst (get_document_count ready_manager (stored_world (\<lambda>c. c = CountRows))) = Inr 0"
  using get_document_count_total [of ready_manager "stored_world (\<lambda>c. False)"]
    get_document_count_total [of ready_manager "blank_world (\<lambda>c. False)"]
    get_document_count_total [of ready_manager "stored_world (\<lambda>c. c = CountRows)"]
  by (simp add: ready_manager_def fresh_manager_def stored_world_def blank_world_def
        get_document_count_def count_sql_def aux_open_def issued_by_def Let_def)

text \<open>
  C4, as stated: whenever the bulk delete raises, \<open>clear_data\<close> falls back to a TRUNCATE
  over the auxiliary connection. The fallback is behind the guard of line 187: on a
  manager whose auxiliary connection could not be opened (\<open>initialize\<close> leaves \<open>conn\<close>
  unset then) a failing bulk delete is followed by no TRUNCATE and the rows stay.
\<close>

theorem clear_data_fallback_counterexample:
  "vector_store (ready_manager\<lparr>conn := None\<rparr>) \<noteq> None
   \<and> faults (stored_world (\<lambda>c. c = DeleteAll)) DeleteAll
   \<and> fst (clear_data (ready_manager\<lparr>conn := None\<rparr>) (stored_world (\<lambda>c. c = DeleteAll))) = Inr ()
   \<and> Truncate \<notin> set (issued_by (stored_world (\<lambda>c. c = DeleteAll))
         (snd (clear_data (ready_manager\<lparr>conn := None\<rparr>) (stored_world (\<lambda>c. c = DeleteAll)))))
   \<and> tables (snd (clear_data (ready_manager\<lparr>conn := None\<rparr>) (stored_world (\<lambda>c. c = DeleteAll))))
        ''pdf_documents'' = Some [chunk1, chunk2]"
  by (simp add: ready_manager_def fresh_manager_def stored_world_def clear_data_def
        aux_open_def issued_by_def Let_def)

text \<open>
  C4, amended. On a manager with a store handle \<open>clear_data\<close> always returns normally.
  It issues the bulk delete; when that succeeds the store's table is empty and the
  success is logged. When the bulk delete raises, the failure is logged, and if the
  auxiliary connection exists and is open the table is truncated over it: a successful
  truncate empties the table and is logged, a failed one (cursor or statement) is logged
  as an error and leaves the tables alone. Without an open auxiliary connection nothing
  further is issued.
\<close>

theorem clear_data_paths:
  assumes "vector_store m = Some s"
  shows "let w' = snd (clear_data m w) in
     fst (clear_data m w) = Inr ()
   \<and> (\<not> faults w DeleteAll \<longrightarrow>
        issued_by w w' = [DeleteAll] \<and> tables w' = tables (emptied (st_table s) w)
        \<and> logged_by w w' = [(INFO, Cleared (table_name m))])
   \<and> (faults w DeleteAll \<and> aux_open m \<and> \<not> faults w TruncCursor \<and> \<not> faults w Truncate \<longrightarrow>
        issued_by w w' = [DeleteAll, TruncCursor, Truncate]
        \<and> tables w' = tables (emptied (table_name m) w)
        \<and> logged_by w w' =
            [(ERROR, ClearFailed (Raised DeleteAll)), (INFO, TruncateOk (table_name m))])
   \<and> (faults w DeleteAll \<and> aux_open m \<and> (faults w TruncCursor \<or> faults w Truncate) \<longrightarrow>
        tables w' = tables w
        \<and> (\<exists>e. logged_by w w' =
                 [(ERROR, ClearFailed (Raised DeleteAll)), (ERROR, TruncateFailed e)]))
   \<and> (faults w DeleteAll \<and> \<not> aux_open m \<longrightarrow>
        issued_by w w' = [DeleteAll] \<and> tables w' = tables w
        \<and> logged_by w w' = [(ERROR, ClearFailed (Raised DeleteAll))])"
  using assms
  by (auto simp: clear_data_def truncate_sql_def issued_by_def logged_by_def Let_def)

theorem clear_data_paths_witness:
  "vector_store ready_manager = Some \<lparr>st_table = ''pdf_documents'', st_embed_dim = PyInt 1536\<rparr>
   \<and> faults (stored_world (\<lambda>c. c = DeleteAll)) DeleteAll \<and> aux_open ready_manager
   \<and> fst (clear_data ready_manager (stored_world (\<lambda>c. c = DeleteAll))) = Inr ()
   \<and> issued_by (stored_world (\<lambda>c. c = DeleteAll))
        (snd (clear_data ready_manager (stored_world (\<lambda>c. c = DeleteAll))))
       = [DeleteAll, TruncCursor, Truncate]
   \<and> tables (snd (clear_data ready_manager (stored_world (\<lambda>c. c = DeleteAll))))
        ''pdf_documents'' = Some []
   \<and> fst (clear_data ready_manager (stored_world (\<lambda>c. c = DeleteAll \<or> c = Truncate))) = Inr ()
   \<and> tables (snd (clear_data ready_manager (stored_world (\<lambda>c. c = DeleteAll \<or> c = Truncate))))
        ''pdf_documents'' = Some [chunk1, chunk2]"
  using clear_data_paths [of ready_manager
      "\<lparr>st_table = ''pdf_documents'', st_embed_dim = PyInt 1536\<rparr>"
      "stored_world (\<lambda>c. c = DeleteAll)"]
    clear_data_paths [of ready_manager
      "\<lparr>st_table = ''pdf_documents'', st_embed_dim = PyInt 1536\<rparr>"
      "stored_world (\<lambda>c. c = DeleteAll \<or> c = Truncate)"]
  by (simp add: ready_manager_def fresh_manager_def stored_world_def aux_open_def Let_def)

text \<open>
  C5. On an initialised manager, when \<open>clear_data\<close> emptied the table through the bulk
  delete or, that having raised, through the fallback truncate, a following
  \<open>get_document_count\<close> returns 0, whichever of its own queries fail.
\<close>

theorem clear_then_count_zero:
  assumes "initialized m"
    and "\<not> faults w DeleteAll \<or> (aux_open m \<and> \<not> faults w TruncCursor \<and> \<not> faults w Truncate)"
  shows "fst (get_document_count m ((snd (clear_data m w))\<lparr>faults := f\<rparr>)) = Inr 0"
  using assms
  by (auto simp: initialized_def clear_data_def truncate_sql_def get_document_count_def
        count_sql_def Let_def split: option.splits)

theorem clear_then_count_zero_witness:
  "initialized ready_manager
   \<and> \<not> faults (stored_world (\<lambda>c. False)) DeleteAll
   \<and> fst (get_document_count ready_manager (stored_world (\<lambda>c. False))) = Inr 2
   \<and> fst (get_document_count ready_manager
            ((snd (clear_data ready_manager (stored_world (\<lambda>c. False))))
               \<lparr>faults := (\<lambda>c. False)\<rparr>)) = Inr 0
   \<and> faults (stored_world (\<lambda>c. c = DeleteAll)) DeleteAll \<and> aux_open ready_manager
   \<and> \<not> faults (stored_world (\<lambda>c. c = DeleteAll)) TruncCursor
   \<and> \<not> faults (stored_world (\<lambda>c. c = DeleteAll)) Truncate
   \<and> fst (get_document_count ready_manager
            ((snd (clear_data ready_manager (stored_world (\<lambda>c. c = DeleteAll))))
               \<lparr>faults := (\<lambda>c. False)\<rparr>)) = Inr 0"
  using clear_then_count_zero [of ready_manager "stored_world (\<lambda>c. False)" "\<lambda>c. False"]
    clear_then_count_zero [of ready_manager "stored_world (\<lambda>c. c = DeleteAll)" "\<lambda>c. False"]
  by (simp add: ready_manager_def fresh_manager_def stored_world_def aux_open_def
        initialized_def get_document_count_def count_sql_def Let_def)

text \<open>
  C8. In \<open>initialize\<close>, a failure constructing the store client (parsing the URL or
  \<open>from_params\<close>) makes the call raise, and the failure is logged as an error. When the
  client and the storage context are constructed, the call returns normally whatever
  happens to the extension and the table: a failure creating the extension is logged as
  a warning and the store client is still constructed; a failure checking for the table
  or creating it is logged and the storage context is still built.
\<close>

theorem initialize_failure_modes:
  "let r = fst (initialize m w); w' = snd (snd (initialize m w)) in
     ((faults w MakeUrl \<or> faults w FromParams) \<longrightarrow>
        (\<exists>e. r = Inl e \<and> (ERROR, InitFailed e) \<in> set (logged_by w w')))
   \<and> (\<not> faults w MakeUrl \<and> \<not> faults w FromParams \<and> \<not> faults w StorageCtx \<longrightarrow> r = Inr ())
   \<and> (\<forall>c. (c = ExtCursor \<or> c = CreateExtension) \<and> c \<in> set (issued_by w w') \<and> faults w c \<longrightarrow>
         (WARNING, ExtensionFailed (Raised c)) \<in> set (logged_by w w')
         \<and> MakeUrl \<in> set (issued_by w w'))
   \<and> (\<forall>c. (c = CheckCursor \<or> c = TableExistsInit) \<and> c \<in> set (issued_by w w') \<and> faults w c \<longrightarrow>
         (ERROR, TableCheckFailed (Raised c)) \<in> set (logged_by w w')
         \<and> StorageCtx \<in> set (issued_by w w'))
   \<and> (CreateTable \<in> set (issued_by w w') \<and> faults w CreateTable \<longrightarrow>
         (WARNING, TableCreateFailed (Raised CreateTable)) \<in> set (logged_by w w')
         \<and> StorageCtx \<in> set (issued_by w w'))"
  unfolding Let_def initialize_calls initialize_log initialize_outcome
  by (auto split: if_splits)

theorem initialize_failure_modes_witness:
  "faults (blank_world (\<lambda>c. c = CreateExtension \<or> c = CreateTable)) CreateExtension
   \<and> faults (blank_world (\<lambda>c. c = CreateExtension \<or> c = CreateTable)) CreateTable
   \<and> CreateExtension \<in> set (issued_by (blank_world (\<lambda>c. c = CreateExtension \<or> c = CreateTable))
        (snd (snd (initialize fresh_manager
                     (blank_world (\<lambda>c. c = CreateExtension \<or> c = CreateTable))))))
   \<and> CreateTable \<in> set (issued_by (blank_world (\<lambda>c. c = CreateExtension \<or> c = CreateTable))
        (snd (snd (initialize fresh_manager
                     (blank_world (\<lambda>c. c = CreateExtension \<or> c = CreateTable))))))
   \<and> fst (initialize fresh_manager (blank_world (\<lambda>c. c = CreateExtension \<or> c = CreateTable)))
       = Inr ()
   \<and> (WARNING, ExtensionFailed (Raised CreateExtension))
        \<in> set (log (snd (snd (initialize fresh_manager
                  (blank_world (\<lambda>c. c = CreateExtension \<or> c = CreateTable))))))
   \<and> (WARNING, TableCreateFailed (Raised CreateTable))
        \<in> set (log (snd (snd (initialize fresh_manager
                  (blank_world (\<lambda>c. c = CreateExtension \<or> c = CreateTable))))))
   \<and> faults (blank_world (\<lambda>c. c = FromParams)) FromParams
   \<and> fst (initialize fresh_manager (blank_world (\<lambda>c. c = FromParams))) = Inl (Raised FromParams)"
  using initialize_failure_modes
      [of fresh_manager "blank_world (\<lambda>c. c = CreateExtension \<or> c = CreateTable)"]
    initialize_failure_modes [of fresh_manager "blank_world (\<lambda>c. c = FromParams)"]
  by (simp add: initialize_calls initialize_log initialize_outcome logged_by_def
        blank_world_def fresh_manager_def valid_dim_def Let_def)

text \<open>
  C9. \<open>create_index_from_nodes\<close> on a manager without a storage context first runs
  \<open>initialize\<close>: when that raises, so does the call; when it succeeds, the manager has a
  storage context and the call goes on as it does on an initialised manager, where
  building the index is the only external call. A successful call returns an index over
  exactly the supplied nodes, bound to the manager's storage context, and \<open>get_index\<close>
  then returns that index; a failed call leaves what \<open>get_index\<close> returns unchanged, so
  it stays the index of the last successful call. On a newly constructed manager
  \<open>get_index\<close> returns none.
\<close>

theorem create_index_from_nodes_contract:
  "let r = create_index_from_nodes ns sc m w; m' = fst (snd r); w' = snd (snd r);
       i = initialize m w
   in (storage_context m = None \<longrightarrow>
         (\<forall>e. fst i = Inl e \<longrightarrow> r = (Inl e, snd i))
         \<and> (fst i = Inr () \<longrightarrow>
              storage_context (fst (snd i)) \<noteq> None
              \<and> r = create_index_from_nodes ns sc (fst (snd i)) (snd (snd i))))
    \<and> (storage_context m \<noteq> None \<longrightarrow> issued_by w w' = [BuildIndex])
    \<and> (\<forall>idx. fst r = Inr idx \<longrightarrow>
          idx_nodes idx = ns \<and> idx_service idx = sc
          \<and> idx_storage idx = storage_context m' \<and> storage_context m' \<noteq> None
          \<and> get_index m' = Some idx)
    \<and> (\<forall>e. fst r = Inl e \<longrightarrow> get_index m' = get_index m)
    \<and> (\<forall>cfg name w0 m0 w1.
          PGVectorManager_init cfg name w0 = (Inr m0, w1) \<longrightarrow> get_index m0 = None)"
proof -
  have fresh: "\<forall>cfg name w0 m0 w1.
      PGVectorManager_init cfg name w0 = (Inr m0, w1) \<longrightarrow> get_index m0 = None"
    by (auto simp: PGVectorManager_init_def get_index_def split: option.splits if_splits)
  show ?thesis
  proof (cases "storage_context m")
    case (Some c)
    then show ?thesis
      using fresh
      by (simp add: create_index_unfold build_index_result get_index_def issued_by_def Let_def)
  next
    case None
    show ?thesis
    proof (cases "fst (initialize m w)")
      case (Inl e)
      then show ?thesis
        using None fresh
        by (simp add: create_index_unfold get_index_def Let_def prod_eq_iff)
    next
      case (Inr u)
      then obtain s where s:
        "storage_context (fst (snd (initialize m w))) = Some (StorageContext (Some s))"
        using initialize_success [of m w u] by blast
      have idx: "index (fst (snd (initialize m w))) = index m" by simp
      show ?thesis
        using None Inr s idx fresh
        by (simp add: create_index_unfold build_index_result get_index_def Let_def)
    qed
  qed
qed

theorem create_index_from_nodes_contract_witness:
  "storage_context fresh_manager = None
   \<and> fst (initialize fresh_manager (blank_world (\<lambda>c. False))) = Inr ()
   \<and> fst (create_index_from_nodes [chunk1, chunk2] None fresh_manager (blank_world (\<lambda>c. False)))
       = Inr \<lparr>idx_nodes = [chunk1, chunk2],
               idx_storage = Some (StorageContext
                 (Some \<lparr>st_table = ''pdf_documents'', st_embed_dim = PyInt 1536\<rparr>)),
               idx_service = None\<rparr>
   \<and> get_index (fst (snd (create_index_from_nodes [chunk1, chunk2] None fresh_manager
                             (blank_world (\<lambda>c. False)))))
       = Some \<lparr>idx_nodes = [chunk1, chunk2],
                idx_storage = Some (StorageContext
                  (Some \<lparr>st_table = ''pdf_documents'', st_embed_dim = PyInt 1536\<rparr>)),
                idx_service = None\<rparr>
   \<and> fst (create_index_from_nodes [chunk1] None ready_manager (blank_world (\<lambda>c. c = BuildIndex)))
       = Inl (Raised BuildIndex)
   \<and> get_index (fst (snd (create_index_from_nodes [chunk1] None ready_manager
                             (blank_world (\<lambda>c. c = BuildIndex))))) = get_index ready_manager
   \<and> fst (PGVectorManager_init
            \<lparr>PGVECTOR_URL = Some ''postgresql://u:p@db:5432/kb'',
             OPENAI_EMBEDDING_MODEL_DIM = 1536\<rparr>
            ''pdf_documents'' (blank_world (\<lambda>c. False))) = Inr fresh_manager
   \<and> get_index fresh_manager = None"
  using create_index_from_nodes_contract
      [of "[chunk1, chunk2]" None fresh_manager "blank_world (\<lambda>c. False)"]
    create_index_from_nodes_contract
      [of "[chunk1]" None ready_manager "blank_world (\<lambda>c. c = BuildIndex)"]
  by (simp add: create_index_unfold build_index_result initialize_unfold validate_dim_def
        valid_dim_def open_aux_def create_store_def ensure_table_def create_extension_def
        PGVectorManager_init_def get_index_def
        fresh_manager_def ready_manager_def blank_world_def Let_def)

section \<open>Properties of the configuration\<close>

text \<open>
  C7, as stated: for a missing, non-numeric or non-positive dimension the manager uses
  1536 and a warning is logged. With the variable unset, \<open>Config\<close> takes 1536 silently
  (lines 44 to 46 print nothing) and nothing is logged either. With \<open>abc\<close> or \<open>-5\<close>
  \<open>Config\<close> prints its warning (lines 51 and 54 call \<open>print\<close>), the manager is built
  with 1536, and the logger receives no warning at all.
\<close>

theorem embedding_dim_warning_counterexample:
  "fst (configured_manager 4300 (Some ''postgresql://u:p@db:5432/kb'') None ''pdf_documents''
          (blank_world (\<lambda>c. False))) = []
   \<and> warnings (snd (snd (snd (configured_manager 4300 (Some ''postgresql://u:p@db:5432/kb'')
          None ''pdf_documents'' (blank_world (\<lambda>c. False)))))) = []
   \<and> map_option embed_dim (fst (snd (snd (configured_manager 4300
          (Some ''postgresql://u:p@db:5432/kb'') None ''pdf_documents''
          (blank_world (\<lambda>c. False)))))) = Some (PyInt 1536)
   \<and> fst (configured_manager 4300 (Some ''postgresql://u:p@db:5432/kb'') (Some ''abc'')
          ''pdf_documents'' (blank_world (\<lambda>c. False))) = [DimNotInt ''abc'']
   \<and> warnings (snd (snd (snd (configured_manager 4300 (Some ''postgresql://u:p@db:5432/kb'')
          (Some ''abc'') ''pdf_documents'' (blank_world (\<lambda>c. False)))))) = []
   \<and> fst (configured_manager 4300 (Some ''postgresql://u:p@db:5432/kb'') (Some ''-5'')
          ''pdf_documents'' (blank_world (\<lambda>c. False))) = [DimNotPositive (- 5)]
   \<and> warnings (snd (snd (snd (configured_manager 4300 (Some ''postgresql://u:p@db:5432/kb'')
          (Some ''-5'') ''pdf_documents'' (blank_world (\<lambda>c. False)))))) = []"
  by (simp add: configured_manager_unfold load_config_def embedding_model_dim_def
        py_int_abc py_int_minus5 lower_abc lower_short strip_plain
        PGVectorManager_init_def initialize_unfold validate_dim_def
        valid_dim_def open_aux_def create_store_def ensure_table_def create_extension_def
        warnings_def blank_world_def Let_def)

text \<open>
  C7, amended. For every configured dimension that is missing, non-numeric or
  non-positive, \<open>Config\<close> yields 1536 and the manager built from it uses 1536, also
  after \<open>initialize\<close>. The validation raises nothing: a failure of the run is the
  missing URL or an external call that raised. When the value is non-numeric or
  non-positive \<open>Config\<close> prints a warning; when it is missing nothing is printed. In
  no case does the logger receive a warning about the dimension.
\<close>

theorem embedding_dim_fallback:
  "let cm = configured_manager k url env name w; printed = fst cm; r = fst (snd cm);
       mo = fst (snd (snd cm)); w' = snd (snd (snd cm))
   in (dim_missing env \<or> dim_non_numeric k env \<or> dim_non_positive k env \<longrightarrow>
         fst (embedding_model_dim k env) = 1536
         \<and> (\<forall>m'. mo = Some m' \<longrightarrow> embed_dim m' = PyInt 1536))
    \<and> (dim_missing env \<longrightarrow> printed = [])
    \<and> (\<forall>s. env = Some s \<and> dim_non_numeric k env \<longrightarrow> printed = [DimNotInt s])
    \<and> (\<forall>s n. env = Some s \<and> dim_non_positive k env \<and> py_int k s = Some n \<longrightarrow>
          printed = [DimNotPositive n])
    \<and> dim_warnings w' = dim_warnings w
    \<and> (\<forall>e. r = Inl e \<longrightarrow>
          (e = ValueError \<and> (url = None \<or> url = Some []))
          \<or> (\<exists>c. e = Raised c \<and> faults w c))"
proof -
  have pos: "0 < fst (embedding_model_dim k env)" by (rule embedding_model_dim_positive)
  have a: "dim_missing env \<or> dim_non_numeric k env \<or> dim_non_positive k env \<longrightarrow>
         fst (embedding_model_dim k env) = 1536"
    by (auto simp: dim_missing_def dim_non_numeric_def dim_non_positive_def
          embedding_model_dim_def split: option.splits)
  have b: "dim_missing env \<longrightarrow> snd (embedding_model_dim k env) = []"
    by (auto simp: dim_missing_def embedding_model_dim_def split: option.splits)
  have c: "\<forall>s. env = Some s \<and> dim_non_numeric k env \<longrightarrow>
        snd (embedding_model_dim k env) = [DimNotInt s]"
    by (auto simp: dim_missing_def dim_non_numeric_def embedding_model_dim_def
          split: option.splits)
  have d: "\<forall>s n. env = Some s \<and> dim_non_positive k env \<and> py_int k s = Some n \<longrightarrow>
          snd (embedding_model_dim k env) = [DimNotPositive n]"
    by (auto simp: dim_missing_def dim_non_positive_def embedding_model_dim_def
          split: option.splits)
  have bad: "url = None \<or> url = Some [] \<Longrightarrow> ?thesis"
  proof -
    assume u: "url = None \<or> url = Some []"
    then have "configured_manager k url env name w
        = (snd (embedding_model_dim k env), Inl ValueError, None, w)"
      by (auto simp: configured_manager_unfold PGVectorManager_init_def load_config_def)
    then show ?thesis
      using a b c d u by (simp add: Let_def)
  qed
  have good: "url = Some u \<Longrightarrow> u \<noteq> [] \<Longrightarrow> ?thesis" for u
  proof -
    assume u: "url = Some u" "u \<noteq> []"
    let ?m = "\<lparr>table_name = name, connection_string = u,
                 embed_dim = PyInt (fst (embedding_model_dim k env)),
                 vector_store = None, storage_context = None, index = None, conn = None\<rparr>"
    let ?w1 = "logged INFO (UsingEmbedDim (PyInt (fst (embedding_model_dim k env)))) w"
    have cm: "configured_manager k url env name w =
        (snd (embedding_model_dim k env), fst (initialize ?m ?w1),
         Some (fst (snd (initialize ?m ?w1))), snd (snd (initialize ?m ?w1)))"
      using u by (simp add: configured_manager_unfold PGVectorManager_init_def load_config_def)
    have valid: "valid_dim (embed_dim ?m)"
      using pos by (simp add: valid_dim_def)
    have dw: "dim_warnings (snd (snd (initialize ?m ?w1))) = dim_warnings w"
      using initialize_valid_no_dim_warning [OF valid, of ?w1]
      by (simp add: dim_warnings_def)
    have ed: "embed_dim (fst (snd (initialize ?m ?w1))) = PyInt (fst (embedding_model_dim k env))"
      using valid by simp
    have r: "\<forall>e. fst (initialize ?m ?w1) = Inl e \<longrightarrow> (\<exists>c. e = Raised c \<and> faults w c)"
      by (auto simp: initialize_outcome split: if_splits)
    show ?thesis
      unfolding cm Let_def
      using a b c d dw ed r by simp
  qed
  show ?thesis
  proof (cases url)
    case None
    then show ?thesis using bad by simp
  next
    case (Some u)
    then show ?thesis using bad good [of u] by (cases "u = []") simp_all
  qed
qed

theorem embedding_dim_fallback_witness:
  "dim_non_numeric 4300 (Some ''abc'')
   \<and> fst (embedding_model_dim 4300 (Some ''abc'')) = 1536
   \<and> fst (configured_manager 4300 (Some ''postgresql://u:p@db:5432/kb'') (Some ''abc'')
            ''pdf_documents'' (blank_world (\<lambda>c. False))) = [DimNotInt ''abc'']
   \<and> dim_non_positive 4300 (Some ''-5'') \<and> py_int 4300 ''-5'' = Some (- 5)
   \<and> fst (configured_manager 4300 (Some ''postgresql://u:p@db:5432/kb'') (Some ''-5'')
            ''pdf_documents'' (blank_world (\<lambda>c. False))) = [DimNotPositive (- 5)]
   \<and> dim_missing (Some ''None'')
   \<and> fst (configured_manager 4300 (Some ''postgresql://u:p@db:5432/kb'') (Some ''None'')
            ''pdf_documents'' (blank_world (\<lambda>c. False))) = []
   \<and> dim_non_numeric 4300 (Some [CHR 0x1F, CHR ''7''])
   \<and> fst (embedding_model_dim 4300 (Some [CHR 0x1F, CHR ''7''])) = 1536
   \<and> fst (configured_manager 4300 (Some ''postgresql://u:p@db:5432/kb'')
            (Some [CHR 0x1F, CHR ''7'']) ''pdf_documents'' (blank_world (\<lambda>c. False)))
       = [DimNotInt [CHR 0x1F, CHR ''7'']]"
  using embedding_dim_fallback [of 4300 "Some ''postgresql://u:p@db:5432/kb''" "Some ''abc''"
      "''pdf_documents''" "blank_world (\<lambda>c. False)"]
    embedding_dim_fallback [of 4300 "Some ''postgresql://u:p@db:5432/kb''" "Some ''-5''"
      "''pdf_documents''" "blank_world (\<lambda>c. False)"]
    embedding_dim_fallback [of 4300 "Some ''postgresql://u:p@db:5432/kb''" "Some ''None''"
      "''pdf_documents''" "blank_world (\<lambda>c. False)"]
    embedding_dim_fallback [of 4300 "Some ''postgresql://u:p@db:5432/kb''"
      "Some [CHR 0x1F, CHR ''7'']" "''pdf_documents''" "blank_world (\<lambda>c. False)"]
  by (simp add: dim_missing_def dim_non_numeric_def dim_non_positive_def
        py_int_abc py_int_minus5 py_int_separator_7 strip_separator_7
        lower_None lower_abc lower_short strip_plain embedding_model_dim_def
        configured_manager_unfold load_config_def PGVectorManager_init_def Let_def)

section \<open>Properties of the query engine\<close>

text \<open>
  C1 says that the filter slot after \<open>query\<close> equals the slot before it, also when the
  saved default was \<open>None\<close> and when the underlying query raises. The source means to
  restore (its comments read: apply the filter temporarily, restore the original
  filter) but tests \<open>original_filters is not None\<close> and has no \<open>finally\<close>. With the
  default \<open>None\<close> a successful filtered query leaves its own filter in the slot; with a
  default set, a filtered query that raises leaves its own filter in the slot too.
\<close>

theorem query_filter_not_restored:
  "query_engine (fixed_engine None (Inr \<lparr>rendered = ''ok'', source_nodes = Some []\<rparr>))
     = Retriever None
   \<and> fst (query (fixed_engine None (Inr \<lparr>rendered = ''ok'', source_nodes = Some []\<rparr>)) ''q''
            (Some ''file_name=a.pdf''))
       = Inr (PDict [(''response'', PStr ''ok''), (''citations'', PList [])])
   \<and> query_engine
        (fst (snd (query (fixed_engine None (Inr \<lparr>rendered = ''ok'', source_nodes = Some []\<rparr>))
                     ''q'' (Some ''file_name=a.pdf''))))
       = Retriever (Some ''file_name=a.pdf'')
   \<and> query_engine (fixed_engine (Some ''lang=en'') (Inl (Raised EngineQuery)))
       = Retriever (Some ''lang=en'')
   \<and> fst (query (fixed_engine (Some ''lang=en'') (Inl (Raised EngineQuery))) ''q''
            (Some ''file_name=a.pdf'')) = Inl (Raised EngineQuery)
   \<and> query_engine
        (fst (snd (query (fixed_engine (Some ''lang=en'') (Inl (Raised EngineQuery)))
                     ''q'' (Some ''file_name=a.pdf''))))
       = Retriever (Some ''file_name=a.pdf'')"
  by (simp add: query_def fixed_engine_def Let_def)

text \<open>
  C6. A query that succeeds returns the dictionary with the keys \<open>response\<close> and
  \<open>citations\<close>, in which the response is the text of the underlying engine's response
  and the citations are one dictionary for each source node, in the order of the source
  nodes, holding the node's content under \<open>content\<close>, its score under \<open>score\<close> and its
  metadata under \<open>metadata\<close>.
\<close>

theorem query_result_shape:
  assumes "fst (query e q filters) = Inr d"
  shows "\<exists>resp ns.
      engine_query e
        (if filters \<noteq> None \<and> has_retriever (query_engine e) \<and> has_filters (query_engine e)
         then set_filters filters (query_engine e) else query_engine e) q = Inr resp
    \<and> ns = (case source_nodes resp of None \<Rightarrow> [] | Some xs \<Rightarrow> xs)
    \<and> d = PDict [(''response'', PStr (rendered resp)), (''citations'', PList (map citation ns))]
    \<and> dict_get d ''response'' = Some (PStr (rendered resp))
    \<and> dict_get d ''citations'' = Some (PList (citations_of d))
    \<and> length (citations_of d) = length ns
    \<and> (\<forall>i < length ns.
          citations_of d ! i =
            PDict [(''content'', PStr (content (node (ns ! i)))),
                   (''score'', PScore (score (ns ! i))),
                   (''metadata'', PMeta (metadata (node (ns ! i))))]
        \<and> dict_get (citations_of d ! i) ''content'' = Some (PStr (content (node (ns ! i))))
        \<and> dict_get (citations_of d ! i) ''score'' = Some (PScore (score (ns ! i)))
        \<and> dict_get (citations_of d ! i) ''metadata'' = Some (PMeta (metadata (node (ns ! i)))))"
  using query_success [OF assms]
  by (auto simp: citations_of_def citation_def)

theorem query_result_shape_witness:
  "fst (query (fixed_engine None (Inr \<lparr>rendered = ''an answer'', source_nodes = Some scored\<rparr>))
          ''what is alpha'' None)
     = Inr (PDict
         [(''response'', PStr ''an answer''),
          (''citations'', PList
             [PDict [(''content'', PStr ''alpha''), (''score'', PScore (9 / 10)),
                     (''metadata'', PMeta [(''file_name'', ''a.pdf'')])],
              PDict [(''content'', PStr ''beta''), (''score'', PScore (3 / 4)),
                     (''metadata'', PMeta [(''file_name'', ''b.pdf'')])],
              PDict [(''content'', PStr ''gamma''), (''score'', PScore (1 / 2)),
                     (''metadata'', PMeta [])]])])"
  using query_result_shape
    [of "fixed_engine None (Inr \<lparr>rendered = ''an answer'', source_nodes = Some scored\<rparr>)"
        "''what is alpha''" None
        "PDict
         [(''response'', PStr ''an answer''),
          (''citations'', PList
             [PDict [(''content'', PStr ''alpha''), (''score'', PScore (9 / 10)),
                     (''metadata'', PMeta [(''file_name'', ''a.pdf'')])],
              PDict [(''content'', PStr ''beta''), (''score'', PScore (3 / 4)),
                     (''metadata'', PMeta [(''file_name'', ''b.pdf'')])],
              PDict [(''content'', PStr ''gamma''), (''score'', PScore (1 / 2)),
                     (''metadata'', PMeta [])]])]"]
  by (simp add: query_def fixed_engine_def scored_def chunk1_def chunk2_def citation_def Let_def)

text \<open>
  C2. An engine constructed with top-K 4 and cutoff 0.7 over the underlying engine of
  the specification answers every successful query, whatever its filter slot holds by
  then, with at most 4 citations, each of which has a score of at least 0.7.
\<close>

theorem citations_within_cutoff_and_top_k:
  assumes "fst (RAGQueryEngine_init (spec_as_query_engine rank generate) 4 (7 / 10) mode opts)
             = Inr e0"
    and "fst (query (e0\<lparr>query_engine := q\<rparr>) text filters) = Inr d"
  shows "length (citations_of d) \<le> 4
       \<and> (\<forall>c \<in> set (citations_of d). \<exists>x. score_of c = Some x \<and> 7 / 10 \<le> x)"
proof -
  have run: "engine_query e0 = spec_engine_query 4 (7 / 10) rank generate"
    using assms(1)
    by (auto simp: RAGQueryEngine_init_def spec_as_query_engine_def Let_def)
  let ?e = "e0\<lparr>query_engine := q\<rparr>"
  from query_success [OF assms(2)] obtain resp q' where
    r: "engine_query ?e q' text = Inr resp"
    and d: "d = PDict [(''response'', PStr (rendered resp)),
                  (''citations'',
                   PList (map citation (case source_nodes resp of None \<Rightarrow> [] | Some xs \<Rightarrow> xs)))]"
    by blast
  define ns where "ns = (case source_nodes resp of None \<Rightarrow> [] | Some xs \<Rightarrow> xs)"
  have cs: "citations_of d = map citation ns"
    using d by (simp add: citations_of_def ns_def)
  from r run obtain ranked where
    "ns = filter (\<lambda>n. \<not> score n < 7 / 10) (take 4 ranked)"
    by (auto simp: spec_engine_query_def Let_def ns_def split: sum.splits)
  then have "length ns \<le> 4" and "\<forall>n \<in> set ns. 7 / 10 \<le> score n"
    by (auto intro: order_trans [OF length_filter_le])
  then show ?thesis
    unfolding cs by (auto simp: score_of_def citation_def)
qed

theorem citations_within_cutoff_and_top_k_witness:
  "fst (RAGQueryEngine_init (spec_as_query_engine rank3 answer3) 4 (7 / 10) ''hybrid'' None)
     = Inr \<lparr>pgvector_options = default_pgvector_options, query_engine = Retriever None,
            engine_query = spec_engine_query 4 (7 / 10) rank3 answer3\<rparr>
   \<and> fst (query (\<lparr>pgvector_options = default_pgvector_options, query_engine = Retriever None,
                   engine_query = spec_engine_query 4 (7 / 10) rank3 answer3\<rparr>
                    \<lparr>query_engine := Retriever (Some ''file_name=a.pdf'')\<rparr>)
            ''what is alpha'' None)
       = Inr (PDict
           [(''response'', PStr ''an answer''),
            (''citations'', PList
               [PDict [(''content'', PStr ''alpha''), (''score'', PScore (9 / 10)),
                       (''metadata'', PMeta [(''file_name'', ''a.pdf'')])],
                PDict [(''content'', PStr ''beta''), (''score'', PScore (3 / 4)),
                       (''metadata'', PMeta [(''file_name'', ''b.pdf'')])]])])
   \<and> map score_of (citations_of (PDict
           [(''response'', PStr ''an answer''),
            (''citations'', PList
               [PDict [(''content'', PStr ''alpha''), (''score'', PScore (9 / 10)),
                       (''metadata'', PMeta [(''file_name'', ''a.pdf'')])],
                PDict [(''content'', PStr ''beta''), (''score'', PScore (3 / 4)),
                       (''metadata'', PMeta [(''file_name'', ''b.pdf'')])]])]))
       = [Some (9 / 10), Some (3 / 4 :: rat)]"
  using citations_within_cutoff_and_top_k
    [of rank3 answer3 "''hybrid''" None
        "\<lparr>pgvector_options = default_pgvector_options, query_engine = Retriever None,
            engine_query = spec_engine_query 4 (7 / 10) rank3 answer3\<rparr>"
        "Retriever (Some ''file_name=a.pdf'')" "''what is alpha''" None
        "PDict
           [(''response'', PStr ''an answer''),
            (''citations'', PList
               [PDict [(''content'', PStr ''alpha''), (''score'', PScore (9 / 10)),
                       (''metadata'', PMeta [(''file_name'', ''a.pdf'')])],
                PDict [(''content'', PStr ''beta''), (''score'', PScore (3 / 4)),
                       (''metadata'', PMeta [(''file_name'', ''b.pdf'')])]])]"]
  by (simp add: RAGQueryEngine_init_def spec_as_query_engine_def spec_engine_query_def
        query_def rank3_def answer3_def scored_def chunk1_def chunk2_def citation_def
        citations_of_def score_of_def Let_def)

end
